theory Spec2Isabelle
  imports Main "HOL-Library.AList"
begin

section \<open>Values of the program\<close>

text \<open>
  The extractor of \<^verbatim>\<open>mh_dist_polygon.py\<close> moves JSON documents between a remote
  service and one GeoJSON file per village. A JSON document, as \<^verbatim>\<open>json.load\<close>
  and \<^verbatim>\<open>response.json()\<close> hand it to Python, is a value of \<open>json\<close>:
  \<open>JNull\<close> is \<^verbatim>\<open>None\<close>, an object is a \<^verbatim>\<open>dict\<close> kept as an association list
  in insertion order. Numbers are integers here; JSON numbers with a fraction are not
  part of the model.
\<close>

datatype json =
    JNull
  | JBool bool
  | JNum int
  | JStr string
  | JArr "json list"
  | JObj "(string \<times> json) list"

text \<open>The exceptions that can leave \<^verbatim>\<open>extract_and_save_village_data\<close>.\<close>

datatype error = AttributeError | TypeError | OSError | UnicodeDecodeError

text \<open>Python's truth value of a JSON value (\<^verbatim>\<open>if x:\<close>, \<^verbatim>\<open>not x\<close>).\<close>

fun truthy :: "json \<Rightarrow> bool" where
  "truthy JNull = False"
| "truthy (JBool b) = b"
| "truthy (JNum n) = (n \<noteq> 0)"
| "truthy (JStr s) = (s \<noteq> [])"
| "truthy (JArr xs) = (xs \<noteq> [])"
| "truthy (JObj kvs) = (kvs \<noteq> [])"

text \<open>\<^verbatim>\<open>d.get(k, default)\<close> on a dict.\<close>

definition dict_get :: "(string \<times> json) list \<Rightarrow> string \<Rightarrow> json \<Rightarrow> json" where
  "dict_get d k dflt = (case map_of d k of None \<Rightarrow> dflt | Some v \<Rightarrow> v)"

text \<open>
  \<^verbatim>\<open>d.update(other)\<close>: the keys of \<open>other\<close> are stored one after the other; a key
  already present keeps its place and takes the new value, a new key goes last.
\<close>

definition dict_update :: "(string \<times> json) list \<Rightarrow> (string \<times> json) list \<Rightarrow> (string \<times> json) list" where
  "dict_update d other = fold (\<lambda>(k, v). AList.update k v) other d"

text \<open>
  A value can be a member of a Python \<^verbatim>\<open>set\<close> when it is hashable: lists and dicts
  are not. \<^verbatim>\<open>True\<close> and \<^verbatim>\<open>1\<close> are the same member (and \<^verbatim>\<open>False\<close> and \<^verbatim>\<open>0\<close>), so
  a member is stored under \<open>set_key\<close>.
\<close>

fun hashable :: "json \<Rightarrow> bool" where
  "hashable (JArr xs) = False"
| "hashable (JObj kvs) = False"
| "hashable v = True"

fun set_key :: "json \<Rightarrow> json" where
  "set_key (JBool b) = JNum (if b then 1 else 0)"
| "set_key v = v"

text \<open>\<^verbatim>\<open>sub in s\<close> for two strings.\<close>

fun str_contains :: "string \<Rightarrow> string \<Rightarrow> bool" where
  "str_contains sub [] = (sub = [])"
| "str_contains sub (c # cs) = (take (length sub) (c # cs) = sub \<or> str_contains sub cs)"

section \<open>The identifier of a village\<close>

text \<open>
  \<^verbatim>\<open>get_village_gis_code\<close>, lines 64-68. A code is a string or \<^verbatim>\<open>None\<close>
  (\<^verbatim>\<open>map_type_code\<close> is \<^verbatim>\<open>None\<close> when the service sends no map type); \<^verbatim>\<open>all([...])\<close>
  asks each for its truth value, and the f-string prints each in turn.
\<close>

definition code_truthy :: "string option \<Rightarrow> bool" where
  "code_truthy c = (case c of None \<Rightarrow> False | Some s \<Rightarrow> s \<noteq> [])"

definition code_str :: "string option \<Rightarrow> string" where
  "code_str c = (case c of None \<Rightarrow> ''None'' | Some s \<Rightarrow> s)"

definition get_village_gis_code ::
  "string option \<Rightarrow> string option \<Rightarrow> string option \<Rightarrow> string option \<Rightarrow> string option \<Rightarrow> string option" where
  "get_village_gis_code category map_type_code district_code taluk_code village_code =
     (if \<not> list_all code_truthy [category, map_type_code, district_code, taluk_code, village_code]
      then None
      else Some (code_str category @ code_str map_type_code @ code_str district_code
                 @ code_str taluk_code @ code_str village_code))"

section \<open>Paths and the file system\<close>

text \<open>
  \<^verbatim>\<open>s.replace(old, new)\<close> for one-character \<open>old\<close> and \<open>new\<close>, and
  \<^verbatim>\<open>os.path.join(a, b)\<close> of \<^verbatim>\<open>posixpath\<close>: a \<open>b\<close> that starts with the separator
  replaces \<open>a\<close>; no separator is added after an empty \<open>a\<close> or one that ends with it.
\<close>

definition replace_char :: "char \<Rightarrow> char \<Rightarrow> string \<Rightarrow> string" where
  "replace_char old new s = map (\<lambda>c. if c = old then new else c) s"

definition os_path_join :: "string \<Rightarrow> string \<Rightarrow> string" where
  "os_path_join a b =
     (if take 1 b = ''/'' then b
      else if a = [] \<or> last a = CHR ''/'' then a @ b
      else a @ ''/'' @ b)"

text \<open>Lines 106 and 108.\<close>

definition taluk_dir_of :: "string \<Rightarrow> string \<Rightarrow> string" where
  "taluk_dir_of output_dir taluk_name =
     os_path_join output_dir (replace_char CHR '' '' CHR ''_'' taluk_name)"

definition output_path_of :: "string \<Rightarrow> string \<Rightarrow> string \<Rightarrow> string" where
  "output_path_of output_dir taluk_name village_name =
     os_path_join (taluk_dir_of output_dir taluk_name)
       (replace_char CHR ''/'' CHR ''_'' (replace_char CHR '' '' CHR ''_'' village_name) @ ''.geojson'')"

text \<open>
  The file system maps a path to what is there. A regular file holds a JSON document,
  or text that is no JSON document (\<open>Malformed\<close>: \<^verbatim>\<open>json.load\<close> raises
  \<^verbatim>\<open>JSONDecodeError\<close>), bytes that are no UTF-8 (\<open>BadEncoding\<close>: reading raises
  \<^verbatim>\<open>UnicodeDecodeError\<close>), or cannot be opened (\<open>Unreadable\<close>: \<^verbatim>\<open>open\<close> raises
  \<^verbatim>\<open>OSError\<close>). Paths name their nodes as strings: \<^verbatim>\<open>.\<close>, \<^verbatim>\<open>..\<close>, links and repeated
  separators are not resolved.
\<close>

datatype content = Unreadable | BadEncoding | Malformed | Doc json

datatype node = Dir | File content

type_synonym filesystem = "string \<Rightarrow> node option"

text \<open>
  The directories above a path, nearest last: every non-empty prefix that stands
  before a separator and does not end with one.
\<close>

fun parents_from :: "string \<Rightarrow> string \<Rightarrow> string list" where
  "parents_from seen [] = []"
| "parents_from seen (c # cs) =
     (if c = CHR ''/'' \<and> seen \<noteq> [] \<and> last seen \<noteq> CHR ''/'' then [seen] else [])
     @ parents_from (seen @ [c]) cs"

definition parents :: "string \<Rightarrow> string list" where
  "parents p = parents_from [] p"

text \<open>
  \<^verbatim>\<open>os.mkdir\<close> as \<^verbatim>\<open>os.makedirs(..., exist_ok=True)\<close> calls it: an existing
  directory is accepted, a regular file in its place or in the place of its parent
  raises (\<^verbatim>\<open>FileExistsError\<close>, \<^verbatim>\<open>NotADirectoryError\<close>, both \<^verbatim>\<open>OSError\<close>).
\<close>

definition mkdir_exist_ok :: "filesystem \<Rightarrow> string \<Rightarrow> string option \<Rightarrow> error + filesystem" where
  "mkdir_exist_ok fs p parent =
     (case fs p of
        Some Dir \<Rightarrow> Inr fs
      | Some (File c) \<Rightarrow> Inl OSError
      | None \<Rightarrow>
          (case parent of
             None \<Rightarrow> Inr (fs(p \<mapsto> Dir))
           | Some h \<Rightarrow> if fs h = Some Dir then Inr (fs(p \<mapsto> Dir)) else Inl OSError))"

text \<open>
  \<^verbatim>\<open>os.makedirs(name, exist_ok=True)\<close> on the chain \<open>name\<close>, its parent, the
  parent's parent, ...: the parent is made first when nothing is there, then the
  directory itself.
\<close>

fun makedirs_chain :: "filesystem \<Rightarrow> string list \<Rightarrow> error + filesystem" where
  "makedirs_chain fs [] = Inr fs"
| "makedirs_chain fs [p] = mkdir_exist_ok fs p None"
| "makedirs_chain fs (p # h # up) =
     (case (if fs h \<noteq> None then Inr fs else makedirs_chain fs (h # up)) of
        Inl e \<Rightarrow> Inl e
      | Inr fs1 \<Rightarrow> mkdir_exist_ok fs1 p (Some h))"

definition makedirs :: "filesystem \<Rightarrow> string \<Rightarrow> error + filesystem" where
  "makedirs fs name = makedirs_chain fs (name # rev (parents name))"

section \<open>The remote service and the world\<close>

text \<open>
  What the run does to the outside is kept in the \<open>world\<close>: the file system, the
  requests sent to the service, every document a successful write stored, and the
  lines printed, each in order. The pause between plots (\<^verbatim>\<open>time.sleep\<close>) changes none
  of them and is left out.
\<close>

datatype request = VillageInfoReq string | PlotListReq string | PlotReq string string

datatype msg =
    FoundExisting string nat
  | WarnStartingFresh string
  | SkipInvalidGisCode string
  | NoPlotList string
  | TotalPlots string nat
  | AllScraped nat string
  | Processing string nat nat
  | SaveError
  | Finished string nat

record world =
  files :: filesystem
  requests :: "request list"
  persisted :: "json list"
  printed :: "msg list"

definition say :: "msg \<Rightarrow> world \<Rightarrow> world" where
  "say m w = w\<lparr>printed := printed w @ [m]\<rparr>"

definition ask :: "request \<Rightarrow> world \<Rightarrow> world" where
  "ask r w = w\<lparr>requests := requests w @ [r]\<rparr>"

text \<open>
  How a write to the output file ends: \<^verbatim>\<open>open(..., 'w')\<close> raises and the file stays
  as it was, or \<^verbatim>\<open>json.dump\<close> raises after the file was truncated, or the document is
  stored.
\<close>

datatype write_outcome = Written | OpenFailed | DumpFailed

text \<open>
  The collaborators of one run. \<open>get_village_info\<close>, \<open>get_plot_list\<close> and
  \<open>get_plot_geometry\<close> are the methods of lines 52-92 seen from their caller: each
  returns the JSON of the reply, or \<^verbatim>\<open>None\<close> (\<open>JNull\<close>; for the plot list \<open>[]\<close>) after
  printing the exception it caught. The plot list is a list of plot-number strings.
  The reply to the request of loop position \<open>i\<close> may depend on \<open>i\<close>. \<open>wkt_to_geojson\<close>
  (lines 94-102) parses and reprojects with floating point arithmetic and is a
  parameter; it returns the GeoJSON mapping or \<^verbatim>\<open>None\<close>. \<open>write_result i\<close> is how the
  write of loop position \<open>i\<close> ends, \<open>state_code\<close> is \<^verbatim>\<open>self.state\<close>.
\<close>

record remote =
  get_village_info :: "string \<Rightarrow> json"
  get_plot_list :: "string \<Rightarrow> string list"
  get_plot_geometry :: "nat \<Rightarrow> string \<Rightarrow> string \<Rightarrow> json"
  wkt_to_geojson :: "json \<Rightarrow> json"
  write_result :: "nat \<Rightarrow> write_outcome"
  state_code :: string

section \<open>Loading the progress of an earlier run\<close>

text \<open>\<^verbatim>\<open>for x in v\<close>: the items of a list, the keys of a dict, the characters of a string.\<close>

fun py_iter :: "json \<Rightarrow> error + json list" where
  "py_iter (JArr xs) = Inr xs"
| "py_iter (JObj kvs) = Inr (map (\<lambda>kv. JStr (fst kv)) kvs)"
| "py_iter (JStr s) = Inr (map (\<lambda>c. JStr [c]) s)"
| "py_iter v = Inl TypeError"

text \<open>
  Lines 122-123 for one feature: \<^verbatim>\<open>feature.get\<close> needs a dict; \<^verbatim>\<open>'plotno' in p\<close> is a
  key test on a dict, a substring test on a string, a membership test on a list and a
  \<^verbatim>\<open>TypeError\<close> on anything else; \<^verbatim>\<open>p['plotno']\<close> raises on a string or a list; adding
  an unhashable value to the set raises.
\<close>

definition feature_plot_no :: "json \<Rightarrow> error + json option" where
  "feature_plot_no feature =
     (case feature of
        JObj f \<Rightarrow>
          (case dict_get f ''properties'' (JObj []) of
             JObj p \<Rightarrow>
               (case map_of p ''plotno'' of
                  None \<Rightarrow> Inr None
                | Some v \<Rightarrow> if hashable v then Inr (Some v) else Inl TypeError)
           | JStr s \<Rightarrow> if str_contains ''plotno'' s then Inl TypeError else Inr None
           | JArr xs \<Rightarrow> if JStr ''plotno'' \<in> set xs then Inl TypeError else Inr None
           | _ \<Rightarrow> Inl TypeError)
      | _ \<Rightarrow> Inl AttributeError)"

fun collect_plot_nos :: "json list \<Rightarrow> json list \<Rightarrow> error + json list" where
  "collect_plot_nos [] existing = Inr existing"
| "collect_plot_nos (f # fs) existing =
     (case feature_plot_no f of
        Inl e \<Rightarrow> Inl e
      | Inr None \<Rightarrow> collect_plot_nos fs existing
      | Inr (Some v) \<Rightarrow> collect_plot_nos fs (List.insert (set_key v) existing))"

text \<open>
  Lines 117-123 on the parsed document: the features, the village info and the set
  of plot numbers (a list without repetition), or the exception raised.
\<close>

definition read_existing :: "json \<Rightarrow> error + (json \<times> json \<times> json list)" where
  "read_existing data =
     (case data of
        JObj d \<Rightarrow>
          (let all_features = dict_get d ''features'' (JArr []) in
           case dict_get d ''metadata'' (JObj []) of
             JObj m \<Rightarrow>
               (let village_info = dict_get m ''village_info'' (JObj []) in
                case py_iter all_features of
                  Inl e \<Rightarrow> Inl e
                | Inr items \<Rightarrow>
                    (case collect_plot_nos items [] of
                       Inl e \<Rightarrow> Inl e
                     | Inr existing \<Rightarrow> Inr (all_features, village_info, existing)))
           | _ \<Rightarrow> Inl AttributeError)
      | _ \<Rightarrow> Inl AttributeError)"

text \<open>
  Lines 110-128. \<^verbatim>\<open>os.path.exists\<close> holds for a file and for a directory; opening a
  directory raises \<^verbatim>\<open>IsADirectoryError\<close>, an \<^verbatim>\<open>OSError\<close>. The handler catches
  \<^verbatim>\<open>JSONDecodeError\<close> and \<^verbatim>\<open>IOError\<close> only: it prints the warning and starts fresh.
  Every other exception leaves the function.
\<close>

definition load_progress ::
  "filesystem \<Rightarrow> string \<Rightarrow> string \<Rightarrow> error + (json \<times> json \<times> json list \<times> msg list)" where
  "load_progress fs output_path village_name =
     (case fs output_path of
        None \<Rightarrow> Inr (JArr [], JObj [], [], [])
      | Some Dir \<Rightarrow> Inr (JArr [], JObj [], [], [WarnStartingFresh village_name])
      | Some (File Unreadable) \<Rightarrow> Inr (JArr [], JObj [], [], [WarnStartingFresh village_name])
      | Some (File Malformed) \<Rightarrow> Inr (JArr [], JObj [], [], [WarnStartingFresh village_name])
      | Some (File BadEncoding) \<Rightarrow> Inl UnicodeDecodeError
      | Some (File (Doc data)) \<Rightarrow>
          (case read_existing data of
             Inl e \<Rightarrow> Inl e
           | Inr (all_features, village_info, existing) \<Rightarrow>
               Inr (all_features, village_info, existing,
                    [FoundExisting village_name (length existing)])))"

section \<open>The loop over the plots\<close>

text \<open>What stays fixed while the plots of one village are processed.\<close>

record job =
  gis_code :: string
  district_name :: string
  taluk_name :: string
  village_name :: string
  output_path :: string
  village_info :: json
  total_plots :: nat

text \<open>What the loop changes: lines 110-111 and the world.\<close>

record progress =
  all_features :: json
  existing_plot_nos :: "json list"
  outside :: world

text \<open>Lines 160-166 and 168-172: the properties and the feature of one plot.\<close>

definition plot_properties :: "job \<Rightarrow> (string \<times> json) list \<Rightarrow> (string \<times> json) list" where
  "plot_properties j plot_data =
     dict_update
       [(''district'', JStr (district_name j)),
        (''taluk'', JStr (taluk_name j)),
        (''village'', JStr (village_name j))]
       plot_data"

definition plot_feature :: "job \<Rightarrow> json \<Rightarrow> (string \<times> json) list \<Rightarrow> json" where
  "plot_feature j geometry plot_data =
     JObj [(''type'', JStr ''Feature''),
           (''geometry'', geometry),
           (''properties'', JObj (plot_properties j plot_data))]"

text \<open>Lines 174-188: the document written after the plot at position \<open>i\<close>.\<close>

definition geojson_output :: "remote \<Rightarrow> job \<Rightarrow> nat \<Rightarrow> json list \<Rightarrow> json" where
  "geojson_output env j i features =
     JObj [(''type'', JStr ''FeatureCollection''),
           (''metadata'',
             JObj [(''district'', JStr (district_name j)),
                   (''taluk'', JStr (taluk_name j)),
                   (''village'', JStr (village_name j)),
                   (''village_info'', village_info j),
                   (''total_plots'', JNum (int (total_plots j))),
                   (''successful_plots'', JNum (int (length features))),
                   (''failed_plots'', JNum ((int i + 1) - int (length features))),
                   (''gis_code'', JStr (gis_code j)),
                   (''state'', JStr (state_code env))]),
           (''features'', JArr features)]"

text \<open>
  Lines 189-194 on the world: whether the write succeeded, and the world after it.
  A directory in the place of the file makes \<^verbatim>\<open>open\<close> raise.
\<close>

definition persist :: "remote \<Rightarrow> nat \<Rightarrow> string \<Rightarrow> json \<Rightarrow> world \<Rightarrow> bool \<times> world" where
  "persist env i path doc w =
     (if files w path = Some Dir then (False, w)
      else case write_result env i of
             Written \<Rightarrow>
               (True, w\<lparr>files := (files w)(path \<mapsto> File (Doc doc)),
                        persisted := persisted w @ [doc]\<rparr>)
           | OpenFailed \<Rightarrow> (False, w)
           | DumpFailed \<Rightarrow> (False, w\<lparr>files := (files w)(path \<mapsto> File Malformed)\<rparr>))"

text \<open>
  Lines 153-194: the body of the loop for a plot that is not in
  \<open>existing_plot_nos\<close>, at position \<open>i\<close> of the plot list.
\<close>

definition process_plot :: "remote \<Rightarrow> job \<Rightarrow> nat \<Rightarrow> string \<Rightarrow> progress \<Rightarrow> error option \<times> progress" where
  "process_plot env j i plot_no s =
     (let s1 = s\<lparr>outside := ask (PlotReq (gis_code j) plot_no)
                    (say (Processing plot_no (i + 1) (total_plots j)) (outside s))\<rparr>;
          plot_data = get_plot_geometry env i (gis_code j) plot_no
      in if \<not> truthy plot_data then (None, s1)
         else case plot_data of
           JObj d \<Rightarrow>
             if \<not> truthy (dict_get d ''the_geom'' JNull) then (None, s1)
             else
               (let geometry = wkt_to_geojson env (dict_get d ''the_geom'' JNull)
                in if \<not> truthy geometry then (None, s1)
                   else case all_features s1 of
                     JArr fs \<Rightarrow>
                       (let features = fs @ [plot_feature j geometry d];
                            s2 = s1\<lparr>all_features := JArr features\<rparr>;
                            (saved, w) = persist env i (output_path j)
                                           (geojson_output env j i features) (outside s2)
                        in if saved
                           then (None, s2\<lparr>existing_plot_nos := List.insert (JStr plot_no) (existing_plot_nos s2),
                                          outside := w\<rparr>)
                           else (None, s2\<lparr>outside := say SaveError w\<rparr>))
                   | _ \<Rightarrow> (Some AttributeError, s1))
         | _ \<Rightarrow> (Some AttributeError, s1))"

text \<open>
  Lines 149-197: \<^verbatim>\<open>for i, plot_no in enumerate(plot_list)\<close>, from position \<open>i\<close> on.
  An exception ends the loop.
\<close>

fun plots_loop :: "remote \<Rightarrow> job \<Rightarrow> nat \<Rightarrow> string list \<Rightarrow> progress \<Rightarrow> error option \<times> progress" where
  "plots_loop env j i [] s = (None, s)"
| "plots_loop env j i (plot_no # rest) s =
     (if JStr plot_no \<in> set (existing_plot_nos s) then plots_loop env j (Suc i) rest s
      else case process_plot env j i plot_no s of
             (Some e, s') \<Rightarrow> (Some e, s')
           | (None, s') \<Rightarrow> plots_loop env j (Suc i) rest s')"

section \<open>Extracting one village\<close>

text \<open>\<^verbatim>\<open>len(all_features)\<close> in the last line printed.\<close>

fun py_len :: "json \<Rightarrow> nat" where
  "py_len (JArr xs) = length xs"
| "py_len (JObj kvs) = length kvs"
| "py_len (JStr s) = length s"
| "py_len v = 0"

text \<open>
  Lines 130-199, after the progress was loaded: the result is the exception that
  left the function, if any, and the world.
\<close>

definition extract_plots ::
  "remote \<Rightarrow> string option \<Rightarrow> string \<Rightarrow> string \<Rightarrow> string \<Rightarrow> string
   \<Rightarrow> json \<Rightarrow> json \<Rightarrow> json list \<Rightarrow> world \<Rightarrow> error option \<times> world" where
  "extract_plots env gis district taluk village path features info existing w =
     (if \<not> code_truthy gis then (None, say (SkipInvalidGisCode village) w)
      else
        (let g = code_str gis;
             (info1, w1) = (if \<not> truthy info then (get_village_info env g, ask (VillageInfoReq g) w)
                            else (info, w));
             plot_list = get_plot_list env g;
             w2 = ask (PlotListReq g) w1
         in if plot_list = [] then (None, say (NoPlotList g) w2)
            else
              (let total = length plot_list;
                   w3 = say (TotalPlots village total) w2
               in if length existing = total then (None, say (AllScraped total village) w3)
                  else
                    (case plots_loop env
                            \<lparr>gis_code = g, district_name = district, taluk_name = taluk,
                             village_name = village, output_path = path,
                             village_info = info1, total_plots = total\<rparr>
                            0 plot_list
                            \<lparr>all_features = features, existing_plot_nos = existing, outside = w3\<rparr> of
                       (Some e, s) \<Rightarrow> (Some e, outside s)
                     | (None, s) \<Rightarrow>
                         (None, say (Finished village (py_len (all_features s))) (outside s))))))"

text \<open>
  \<^verbatim>\<open>extract_and_save_village_data\<close>, lines 104-199. The directory of the taluk is
  made first; an exception of \<^verbatim>\<open>os.makedirs\<close> or of the load leaves the function.
\<close>

definition extract_and_save_village_data ::
  "remote \<Rightarrow> string option \<Rightarrow> string \<Rightarrow> string \<Rightarrow> string \<Rightarrow> string \<Rightarrow> world
   \<Rightarrow> error option \<times> world" where
  "extract_and_save_village_data env gis district taluk village output_dir w =
     (let taluk_dir = taluk_dir_of output_dir taluk in
      case makedirs (files w) taluk_dir of
        Inl e \<Rightarrow> (Some e, w)
      | Inr fs1 \<Rightarrow>
          (let w1 = w\<lparr>files := fs1\<rparr>;
               path = output_path_of output_dir taluk village
           in case load_progress fs1 path village of
                Inl e \<Rightarrow> (Some e, w1)
              | Inr (features, info, existing, lines) \<Rightarrow>
                  extract_plots env gis district taluk village path features info existing
                    (w1\<lparr>printed := printed w1 @ lines\<rparr>)))"

section \<open>Notions the properties are stated with\<close>

text \<open>The plot numbers of the plot requests among the requests sent, in order.\<close>

fun plot_nos_requested :: "request list \<Rightarrow> string list" where
  "plot_nos_requested [] = []"
| "plot_nos_requested (PlotReq g p # rs) = p # plot_nos_requested rs"
| "plot_nos_requested (r # rs) = plot_nos_requested rs"

text \<open>
  The features of a document and of the file at a path: the list under
  \<^verbatim>\<open>features\<close>, empty when there is no such list, no document or no file.
\<close>

fun py_list :: "json \<Rightarrow> json list" where
  "py_list (JArr xs) = xs"
| "py_list v = []"

definition doc_features :: "json \<Rightarrow> json list" where
  "doc_features doc =
     (case doc of JObj d \<Rightarrow> py_list (dict_get d ''features'' (JArr [])) | _ \<Rightarrow> [])"

definition features_on_disk :: "filesystem \<Rightarrow> string \<Rightarrow> json list" where
  "features_on_disk fs path =
     (case fs path of Some (File (Doc doc)) \<Rightarrow> doc_features doc | _ \<Rightarrow> [])"

text \<open>A field of the metadata of a document (\<^verbatim>\<open>None\<close> when it is missing).\<close>

definition metadata_field :: "string \<Rightarrow> json \<Rightarrow> json" where
  "metadata_field k doc =
     (case doc of
        JObj d \<Rightarrow> (case dict_get d ''metadata'' JNull of JObj m \<Rightarrow> dict_get m k JNull | _ \<Rightarrow> JNull)
      | _ \<Rightarrow> JNull)"

text \<open>
  The feature a plot yields at loop position \<open>i\<close>: the reply is a dict with a
  geometry that reprojects; \<^verbatim>\<open>None\<close> otherwise.
\<close>

definition plot_yield :: "remote \<Rightarrow> job \<Rightarrow> nat \<Rightarrow> string \<Rightarrow> json option" where
  "plot_yield env j i plot_no =
     (case get_plot_geometry env i (gis_code j) plot_no of
        JObj d \<Rightarrow>
          if truthy (dict_get d ''the_geom'' JNull)
             \<and> truthy (wkt_to_geojson env (dict_get d ''the_geom'' JNull))
          then Some (plot_feature j (wkt_to_geojson env (dict_get d ''the_geom'' JNull)) d)
          else None
      | _ \<Rightarrow> None)"

text \<open>
  The features of the plots of a plot list, from position \<open>i\<close> on, that are not in
  \<open>existing\<close> and yield a feature.
\<close>

fun new_features :: "remote \<Rightarrow> job \<Rightarrow> nat \<Rightarrow> string list \<Rightarrow> json list \<Rightarrow> json list" where
  "new_features env j i [] existing = []"
| "new_features env j i (p # ps) existing =
     (if JStr p \<in> set existing then []
      else case plot_yield env j i p of None \<Rightarrow> [] | Some f \<Rightarrow> [f])
     @ new_features env j (Suc i) ps existing"

text \<open>A list of features extends another: it starts with it.\<close>

definition extends :: "json list \<Rightarrow> json list \<Rightarrow> bool" where
  "extends old new = (take (length old) new = old)"

text \<open>
  The path scheme in the words of the specification: whitespace and path separators
  of both names are replaced.
\<close>

definition is_whitespace :: "char \<Rightarrow> bool" where
  "is_whitespace c = (c \<in> set [CHR '' '', CHR 0x09, CHR 0x0A, CHR 0x0B, CHR 0x0C, CHR 0x0D])"

definition spec_sanitize :: "string \<Rightarrow> string" where
  "spec_sanitize s = map (\<lambda>c. if is_whitespace c \<or> c = CHR ''/'' then CHR ''_'' else c) s"

definition spec_output_path :: "string \<Rightarrow> string \<Rightarrow> string \<Rightarrow> string" where
  "spec_output_path output_root taluk village =
     output_root @ ''/'' @ spec_sanitize taluk @ ''/'' @ spec_sanitize village @ ''.geojson''"

section \<open>Example runs\<close>

text \<open>
  A service with the plots 101 and 102 that answers every plot request and whose
  geometry reprojects, a service that fails on plot 101, and worlds to run them in.
\<close>

definition demo_remote :: remote where
  "demo_remote =
     \<lparr>get_village_info = (\<lambda>g. JNull),
      get_plot_list = (\<lambda>g. [''101'', ''102'']),
      get_plot_geometry =
        (\<lambda>i g p. JObj [(''plotno'', JStr p), (''the_geom'', JStr ''POINT (1 2)'')]),
      wkt_to_geojson =
        (\<lambda>v. JObj [(''type'', JStr ''Point''), (''coordinates'', JArr [JNum 73, JNum 18])]),
      write_result = (\<lambda>i. Written),
      state_code = ''27''\<rparr>"

definition flaky_remote :: remote where
  "flaky_remote =
     demo_remote\<lparr>get_plot_geometry :=
       (\<lambda>i g p. if p = ''101'' then JNull else get_plot_geometry demo_remote i g p)\<rparr>"

definition empty_world :: world where
  "empty_world = \<lparr>files = Map.empty, requests = [], persisted = [], printed = []\<rparr>"

definition array_file_world :: world where
  "array_file_world =
     empty_world\<lparr>files := [''data_Pune/Haveli/Wagholi.geojson'' \<mapsto> File (Doc (JArr []))]\<rparr>"

definition cut_file_world :: world where
  "cut_file_world =
     empty_world\<lparr>files := [''data_Pune/Haveli/Wagholi.geojson'' \<mapsto> File BadEncoding]\<rparr>"

definition demo_job :: job where
  "demo_job =
     \<lparr>gis_code = ''U0125010203'', district_name = ''Pune'', taluk_name = ''Haveli'',
      village_name = ''Wagholi'', output_path = ''data_Pune/Haveli/Wagholi.geojson'',
      village_info = JNull, total_plots = 2\<rparr>"

text \<open>
  The world after a run against the service that fails on plot 101, and the world
  after a second run, against the service that answers, on top of it.
\<close>

definition resumed_world :: world where
  "resumed_world =
     snd (extract_and_save_village_data flaky_remote (Some ''U0125010203'')
            ''Pune'' ''Haveli'' ''Wagholi'' ''data_Pune'' empty_world)"

definition complete_world :: world where
  "complete_world =
     snd (extract_and_save_village_data demo_remote (Some ''U0125010203'')
            ''Pune'' ''Haveli'' ''Wagholi'' ''data_Pune'' resumed_world)"

text \<open>The progress of a run that starts with no file.\<close>

definition fresh_progress :: progress where
  "fresh_progress = \<lparr>all_features = JArr [], existing_plot_nos = [], outside = empty_world\<rparr>"

text \<open>
  The service after its plots were renumbered to 7 and 8, and the world after a run
  against it.
\<close>

definition renumbered_remote :: remote where
  "renumbered_remote = demo_remote\<lparr>get_plot_list := (\<lambda>g. [''7'', ''8''])\<rparr>"

definition stale_world :: world where
  "stale_world =
     snd (extract_and_save_village_data renumbered_remote (Some ''U0125010203'')
            ''Pune'' ''Haveli'' ''Wagholi'' ''data_Pune'' empty_world)"


definition is_village_output :: "json \<Rightarrow> bool" where
  "is_village_output doc =
     (case doc of
        JObj d \<Rightarrow>
          map fst d = [''type'', ''metadata'', ''features'']
          \<and> dict_get d ''type'' JNull = JStr ''FeatureCollection''
          \<and> (case dict_get d ''metadata'' JNull of
                JObj m \<Rightarrow>
                  map fst m = [''district'', ''taluk'', ''village'', ''village_info'', ''total_plots'',
                               ''successful_plots'', ''failed_plots'', ''gis_code'', ''state'']
              | _ \<Rightarrow> False)
          \<and> (case dict_get d ''features'' JNull of JArr fs \<Rightarrow> True | _ \<Rightarrow> False)
      | _ \<Rightarrow> False)"





section \<open>Properties of the identifier\<close>

text \<open>
  Claim C7 (identifier totality). \<open>get_village_gis_code\<close>, with the configured category
  as its first constituent, returns \<^verbatim>\<open>None\<close> exactly when one of the five codes is
  absent or empty; for five non-empty codes it returns their concatenation in the
  order category, map type, district, taluk, village.
\<close>

theorem gis_code_totality:
  "(get_village_gis_code c m d t v = None) =
     (c = None \<or> c = Some [] \<or> m = None \<or> m = Some [] \<or> d = None \<or> d = Some []
      \<or> t = None \<or> t = Some [] \<or> v = None \<or> v = Some [])
   \<and> get_village_gis_code (Some cs) (Some ms) (Some ds) (Some ts) (Some vs) =
       (if cs = [] \<or> ms = [] \<or> ds = [] \<or> ts = [] \<or> vs = [] then None
        else Some (cs @ ms @ ds @ ts @ vs))"
  by (auto simp: get_village_gis_code_def code_truthy_def code_str_def split: option.splits)

theorem gis_code_totality_witness:
  "get_village_gis_code (Some ''U'') (Some ''01'') (Some ''25'') (Some ''03'') (Some ''0042'')
     = Some ''U0125030042''
   \<and> get_village_gis_code (Some ''U'') None (Some ''25'') (Some ''03'') (Some ''0042'') = None"
  using gis_code_totality [of "Some ''U''" None "Some ''25''" "Some ''03''" "Some ''0042''"
                              "''U''" "''01''" "''25''" "''03''" "''0042''"]
  by simp

section \<open>Properties of the output path\<close>

text \<open>
  Claim C9 as the specification words it fails: a tab and a path separator in the
  name of the taluk both stay in the path.
\<close>

theorem taluk_separator_kept:
  "output_path_of ''out'' (''A'' @ [CHR 0x09] @ ''B/C'') ''V'' = ''out/A'' @ [CHR 0x09] @ ''B/C/V.geojson''
   \<and> output_path_of ''out'' (''A'' @ [CHR 0x09] @ ''B/C'') ''V''
       \<noteq> spec_output_path ''out'' (''A'' @ [CHR 0x09] @ ''B/C'') ''V''"
  by code_simp

text \<open>
  Claim C9 (output path scheme), amended. For an output root that is not empty and does
  not end with a separator, and a taluk name that is not empty and holds no separator,
  the output path is the root, the taluk name with every space replaced by an
  underscore, the village name with every space and every separator replaced by an
  underscore, and \<^verbatim>\<open>.geojson\<close>, joined by separators. No other character is replaced.
\<close>

theorem output_path_scheme:
  assumes "output_dir \<noteq> []" "last output_dir \<noteq> CHR ''/''" "taluk \<noteq> []" "CHR ''/'' \<notin> set taluk"
  shows "output_path_of output_dir taluk village =
           output_dir @ ''/'' @ map (\<lambda>c. if c = CHR '' '' then CHR ''_'' else c) taluk
           @ ''/'' @ map (\<lambda>c. if c = CHR '' '' \<or> c = CHR ''/'' then CHR ''_'' else c) village
           @ ''.geojson''"
proof -
  let ?t = "replace_char CHR '' '' CHR ''_'' taluk"
  let ?v = "replace_char CHR ''/'' CHR ''_'' (replace_char CHR '' '' CHR ''_'' village) @ ''.geojson''"
  have "hd taluk \<noteq> CHR ''/''" "last taluk \<noteq> CHR ''/''"
    using assms(3,4) by (metis hd_in_set, metis last_in_set)
  then have t: "?t \<noteq> []" "hd ?t \<noteq> CHR ''/''" "last ?t \<noteq> CHR ''/''"
    using assms(3) by (auto simp: replace_char_def hd_map last_map)
  then have "take 1 ?t \<noteq> ''/''" by (cases ?t) auto
  then have dir: "taluk_dir_of output_dir taluk = output_dir @ ''/'' @ ?t"
    using assms(1,2) by (simp add: taluk_dir_of_def os_path_join_def)
  have v: "take 1 ?v \<noteq> ''/''"
    by (cases village) (auto simp: replace_char_def)
  have "last (output_dir @ ''/'' @ ?t) \<noteq> CHR ''/''" using t by simp
  with v dir have "output_path_of output_dir taluk village = (output_dir @ ''/'' @ ?t) @ ''/'' @ ?v"
    by (simp add: output_path_of_def os_path_join_def)
  moreover have "replace_char CHR ''/'' CHR ''_'' (replace_char CHR '' '' CHR ''_'' village)
      = map (\<lambda>c. if c = CHR '' '' \<or> c = CHR ''/'' then CHR ''_'' else c) village"
    by (auto simp: replace_char_def)
  ultimately show ?thesis by (simp add: replace_char_def)
qed

theorem output_path_scheme_witness:
  "''data_Pune'' \<noteq> [] \<and> last ''data_Pune'' \<noteq> CHR ''/'' \<and> ''Pune City'' \<noteq> []
   \<and> CHR ''/'' \<notin> set ''Pune City''
   \<and> output_path_of ''data_Pune'' ''Pune City'' ''Aundh 1/2'' = ''data_Pune/Pune_City/Aundh_1_2.geojson''"
  using output_path_scheme [of "''data_Pune''" "''Pune City''" "''Aundh 1/2''"]
  by simp

section \<open>Runs that show a defect\<close>

text \<open>
  Claim C5 (the extractor never raises). The output file holds the JSON document
  \<^verbatim>\<open>[]\<close>: it parses, \<^verbatim>\<open>data.get\<close> raises \<^verbatim>\<open>AttributeError\<close>, the handler of
  lines 125-128 does not catch it and it leaves the function. So does the
  \<^verbatim>\<open>UnicodeDecodeError\<close> of a file cut inside a character.
\<close>

theorem load_raises_on_json_array:
  "fst (extract_and_save_village_data demo_remote (Some ''U0125010203'')
          ''Pune'' ''Haveli'' ''Wagholi'' ''data_Pune'' array_file_world)
   = Some AttributeError
   \<and> fst (extract_and_save_village_data demo_remote (Some ''U0125010203'')
          ''Pune'' ''Haveli'' ''Wagholi'' ''data_Pune'' cut_file_world)
   = Some UnicodeDecodeError"
  by code_simp

text \<open>
  Claim C8 (metadata counters). A first run gets no reply for plot 101 and saves
  plot 102 with \<^verbatim>\<open>failed_plots\<close> 1; the next run gets plot 101 at position 0 and
  saves \<^verbatim>\<open>failed_plots\<close> -1: the position in the plot list is counted, not the
  requests made, and the features loaded from the file count as successes.
\<close>

theorem failed_plots_negative_on_retry:
  "map (metadata_field ''failed_plots'')
     (persisted (snd (extract_and_save_village_data demo_remote (Some ''U0125010203'')
        ''Pune'' ''Haveli'' ''Wagholi'' ''data_Pune''
        (snd (extract_and_save_village_data flaky_remote (Some ''U0125010203'')
           ''Pune'' ''Haveli'' ''Wagholi'' ''data_Pune'' empty_world)))))
   = [JNum 1, JNum (- 1)]"
  by code_simp

section \<open>The directory of the taluk\<close>

text \<open>What \<^verbatim>\<open>os.makedirs\<close> changes: paths that were absent become directories.\<close>

lemma mkdir_exist_ok_effect:
  assumes "mkdir_exist_ok fs p parent = Inr fs'"
  shows "fs' p = Some Dir" and "fs' q = fs q \<or> (fs q = None \<and> fs' q = Some Dir \<and> q = p)"
  using assms
  by (auto simp: mkdir_exist_ok_def split: option.splits node.splits if_splits)

lemma makedirs_chain_effect:
  "makedirs_chain fs ch = Inr fs' \<Longrightarrow>
     fs' q = fs q \<or> (fs q = None \<and> fs' q = Some Dir \<and> q \<in> set ch)"
proof (induction fs ch arbitrary: fs' rule: makedirs_chain.induct)
  case (1 fs)
  then show ?case by simp
next
  case (2 fs p)
  then show ?case using mkdir_exist_ok_effect(2) [of fs p None fs' q] by auto
next
  case (3 fs p h up)
  show ?case
  proof (cases "fs h \<noteq> None")
    case True
    with 3 have "mkdir_exist_ok fs p (Some h) = Inr fs'" by simp
    then show ?thesis using mkdir_exist_ok_effect(2) [of fs p "Some h" fs' q] by auto
  next
    case False
    with 3(2) obtain fs1 where a: "makedirs_chain fs (h # up) = Inr fs1"
      and b: "mkdir_exist_ok fs1 p (Some h) = Inr fs'"
      by (auto split: sum.splits)
    from 3(1) [OF _ a] False
    have "fs1 q = fs q \<or> (fs q = None \<and> fs1 q = Some Dir \<and> q \<in> set (h # up))" by simp
    moreover from mkdir_exist_ok_effect(2) [OF b, of q]
    have "fs' q = fs1 q \<or> (fs1 q = None \<and> fs' q = Some Dir \<and> q = p)" .
    ultimately show ?thesis by auto
  qed
qed

lemma makedirs_chain_head:
  "makedirs_chain fs (p # up) = Inr fs' \<Longrightarrow> fs' p = Some Dir"
  by (cases up) (auto split: sum.splits if_splits dest: mkdir_exist_ok_effect(1))

lemma makedirs_effect:
  assumes "makedirs fs name = Inr fs'"
  shows "fs' name = Some Dir"
    and "fs' q = fs q \<or> (fs q = None \<and> fs' q = Some Dir \<and> (q = name \<or> q \<in> set (parents name)))"
  using makedirs_chain_head [of fs name "rev (parents name)" fs']
        makedirs_chain_effect [of fs "name # rev (parents name)" fs' q] assms
  by (auto simp: makedirs_def)

section \<open>One plot\<close>

lemma plot_nos_requested_append:
  "plot_nos_requested (xs @ ys) = plot_nos_requested xs @ plot_nos_requested ys"
  by (induction xs rule: plot_nos_requested.induct) auto

lemma process_plot_requests:
  "process_plot env j i p s = (r, s1) \<Longrightarrow>
     requests (outside s1) = requests (outside s) @ [PlotReq (gis_code j) p]"
  by (auto simp: process_plot_def Let_def persist_def say_def ask_def
           split: json.splits if_splits write_outcome.splits prod.splits)

lemma process_plot_existing:
  "process_plot env j i p s = (r, s1) \<Longrightarrow>
     existing_plot_nos s1 = existing_plot_nos s
     \<or> (existing_plot_nos s1 = List.insert (JStr p) (existing_plot_nos s)
        \<and> write_result env i = Written \<and> r = None)"
  by (auto simp: process_plot_def Let_def persist_def say_def ask_def
           split: json.splits if_splits write_outcome.splits prod.splits)


lemma truthy_the_geom: "truthy (dict_get d ''the_geom'' JNull) \<Longrightarrow> d \<noteq> []"
  by (auto simp: dict_get_def)

lemma doc_features_geojson_output [simp]:
  "doc_features (geojson_output env j i fs) = fs"
  by (simp add: doc_features_def geojson_output_def dict_get_def)

lemma process_plot_no_yield:
  assumes "process_plot env j i p s = (r, s1)" "plot_yield env j i p = None"
  shows "all_features s1 = all_features s" "existing_plot_nos s1 = existing_plot_nos s"
        "files (outside s1) = files (outside s)" "persisted (outside s1) = persisted (outside s)"
  using assms
  by (auto simp: process_plot_def plot_yield_def Let_def say_def ask_def
           split: json.splits if_splits)

lemma process_plot_yield:
  assumes "process_plot env j i p s = (r, s1)" "plot_yield env j i p = Some f"
  shows "(r = Some AttributeError \<and> (\<forall>fs. all_features s \<noteq> JArr fs)
          \<and> all_features s1 = all_features s \<and> existing_plot_nos s1 = existing_plot_nos s
          \<and> files (outside s1) = files (outside s) \<and> persisted (outside s1) = persisted (outside s))
       \<or> (r = None \<and> (\<exists>fs. all_features s = JArr fs \<and> all_features s1 = JArr (fs @ [f])
            \<and> ((files (outside s) (output_path j) \<noteq> Some Dir \<and> write_result env i = Written
                 \<and> existing_plot_nos s1 = List.insert (JStr p) (existing_plot_nos s)
                 \<and> files (outside s1) = (files (outside s))(output_path j \<mapsto> File (Doc (geojson_output env j i (fs @ [f]))))
                 \<and> persisted (outside s1) = persisted (outside s) @ [geojson_output env j i (fs @ [f])])
              \<or> ((files (outside s) (output_path j) = Some Dir \<or> write_result env i \<noteq> Written)
                 \<and> existing_plot_nos s1 = existing_plot_nos s
                 \<and> persisted (outside s1) = persisted (outside s)
                 \<and> (\<forall>q. q \<noteq> output_path j \<longrightarrow> files (outside s1) q = files (outside s) q)
                 \<and> (files (outside s1) (output_path j) = files (outside s) (output_path j)
                    \<or> files (outside s1) (output_path j) = Some (File Malformed))))))"
  using assms
  apply (simp add: process_plot_def plot_yield_def Let_def split: json.splits if_splits)
  apply (frule truthy_the_geom)
  apply (cases "all_features s")
  apply (auto simp: persist_def say_def ask_def split: if_splits write_outcome.splits prod.splits)
  done

section \<open>The loop\<close>

lemma plots_loop_all_existing:
  "set (map JStr plot_list) \<subseteq> set (existing_plot_nos s) \<Longrightarrow> plots_loop env j i plot_list s = (None, s)"
  by (induction plot_list arbitrary: i) auto

lemma plots_loop_Cons_fetch:
  assumes "plots_loop env j i (p # rest) s = (None, s')" "JStr p \<notin> set (existing_plot_nos s)"
  obtains s1 where "process_plot env j i p s = (None, s1)" "plots_loop env j (Suc i) rest s1 = (None, s')"
  using assms by (auto split: prod.splits option.splits)

lemma plots_loop_requests:
  "distinct plot_list \<Longrightarrow> plots_loop env j i plot_list s = (None, s') \<Longrightarrow>
     plot_nos_requested (requests (outside s')) =
       plot_nos_requested (requests (outside s))
       @ filter (\<lambda>p. JStr p \<notin> set (existing_plot_nos s)) plot_list"
proof (induction plot_list arbitrary: i s)
  case Nil
  then show ?case by simp
next
  case (Cons p rest)
  show ?case
  proof (cases "JStr p \<in> set (existing_plot_nos s)")
    case True
    with Cons show ?thesis by simp
  next
    case False
    from Cons.prems(2) False obtain s1 where
      step: "process_plot env j i p s = (None, s1)" and
      loop: "plots_loop env j (Suc i) rest s1 = (None, s')"
      by (rule plots_loop_Cons_fetch)
    have "set (existing_plot_nos s1) \<subseteq> insert (JStr p) (set (existing_plot_nos s))"
      "set (existing_plot_nos s) \<subseteq> set (existing_plot_nos s1)"
      using process_plot_existing [OF step] by auto
    with Cons.prems(1)
    have same: "filter (\<lambda>q. JStr q \<notin> set (existing_plot_nos s1)) rest
              = filter (\<lambda>q. JStr q \<notin> set (existing_plot_nos s)) rest"
      by (intro filter_cong) auto
    from Cons.IH [OF _ loop] Cons.prems(1)
    have "plot_nos_requested (requests (outside s')) =
            plot_nos_requested (requests (outside s1))
            @ filter (\<lambda>q. JStr q \<notin> set (existing_plot_nos s1)) rest"
      by simp
    with same process_plot_requests [OF step] False show ?thesis
      by (simp add: plot_nos_requested_append)
  qed
qed

lemma new_features_insert:
  "p \<notin> set plot_list \<Longrightarrow>
     new_features env j i plot_list (List.insert (JStr p) existing) = new_features env j i plot_list existing"
  by (induction plot_list arbitrary: i) auto

lemma new_features_Cons:
  "p \<notin> set plot_list \<Longrightarrow>
     new_features env j i plot_list (JStr p # existing) = new_features env j i plot_list existing"
  by (induction plot_list arbitrary: i) auto

lemma plots_loop_disk:
  assumes "distinct plot_list"
    and "\<forall>k. write_result env k = Written"
    and "plots_loop env j i plot_list s = (None, s')"
    and "files (outside s) (output_path j) \<noteq> Some Dir"
    and "features_on_disk (files (outside s)) (output_path j) = py_list (all_features s)"
  shows "features_on_disk (files (outside s')) (output_path j)
           = py_list (all_features s) @ new_features env j i plot_list (existing_plot_nos s)"
  using assms
proof (induction plot_list arbitrary: i s)
  case Nil
  then show ?case by simp
next
  case (Cons p rest)
  show ?case
  proof (cases "JStr p \<in> set (existing_plot_nos s)")
    case True
    with Cons show ?thesis by simp
  next
    case False
    from Cons.prems(3) False obtain s1 where
      step: "process_plot env j i p s = (None, s1)" and
      loop: "plots_loop env j (Suc i) rest s1 = (None, s')"
      by (rule plots_loop_Cons_fetch)
    show ?thesis
    proof (cases "plot_yield env j i p")
      case None
      from process_plot_no_yield [OF step None] Cons.prems
      have "files (outside s1) (output_path j) \<noteq> Some Dir"
        "features_on_disk (files (outside s1)) (output_path j) = py_list (all_features s1)"
        "all_features s1 = all_features s" "existing_plot_nos s1 = existing_plot_nos s"
        by simp_all
      with Cons.IH [OF _ Cons.prems(2) loop] Cons.prems(1) None False show ?thesis by simp
    next
      case (Some f)
      from process_plot_yield [OF step Some] Cons.prems(2,4)
      obtain fs where fs: "all_features s = JArr fs" "all_features s1 = JArr (fs @ [f])"
        "existing_plot_nos s1 = List.insert (JStr p) (existing_plot_nos s)"
        "files (outside s1) = (files (outside s))(output_path j \<mapsto> File (Doc (geojson_output env j i (fs @ [f]))))"
        by auto
      then have "files (outside s1) (output_path j) \<noteq> Some Dir"
        "features_on_disk (files (outside s1)) (output_path j) = py_list (all_features s1)"
        by (simp_all add: features_on_disk_def)
      from Cons.IH [OF _ Cons.prems(2) loop this] Cons.prems(1) fs Some False
      show ?thesis by (simp add: new_features_insert new_features_Cons)
    qed
  qed
qed

section \<open>The whole call\<close>

lemma makedirs_features_on_disk:
  "makedirs fs name = Inr fs' \<Longrightarrow> features_on_disk fs' q = features_on_disk fs q"
  using makedirs_effect(2) [of fs name fs' q]
  by (auto simp: features_on_disk_def)

lemma load_features_on_disk:
  "load_progress fs path v = Inr (features, info, existing, lines) \<Longrightarrow>
     features_on_disk fs path = py_list features"
  by (auto simp: load_progress_def read_existing_def features_on_disk_def doc_features_def Let_def
           split: option.splits node.splits content.splits json.splits sum.splits)

lemma plot_yield_cong:
  "gis_code j = gis_code j' \<Longrightarrow> district_name j = district_name j' \<Longrightarrow>
   taluk_name j = taluk_name j' \<Longrightarrow> village_name j = village_name j' \<Longrightarrow>
   plot_yield env j i p = plot_yield env j' i p"
  by (auto simp: plot_yield_def plot_feature_def plot_properties_def split: json.splits)

lemma new_features_cong:
  "gis_code j = gis_code j' \<Longrightarrow> district_name j = district_name j' \<Longrightarrow>
   taluk_name j = taluk_name j' \<Longrightarrow> village_name j = village_name j' \<Longrightarrow>
   new_features env j i plot_list existing = new_features env j' i plot_list existing"
  by (induction plot_list arbitrary: i) (auto simp: plot_yield_cong [of j j'])

lemma extract_skipped:
  assumes "\<not> code_truthy gis \<or> get_plot_list env (code_str gis) = []"
    and "makedirs (files w) (taluk_dir_of output_dir taluk) = Inr fs1"
  shows "files (snd (extract_and_save_village_data env gis district taluk village output_dir w)) = fs1
    \<and> persisted (snd (extract_and_save_village_data env gis district taluk village output_dir w)) = persisted w
    \<and> plot_nos_requested (requests (snd (extract_and_save_village_data env gis district taluk village output_dir w)))
        = plot_nos_requested (requests w)"
  using assms
  by (auto simp: extract_and_save_village_data_def extract_plots_def Let_def say_def ask_def
                 plot_nos_requested_append
           split: sum.splits prod.splits)

lemma extract_complete:
  assumes "makedirs (files w) (taluk_dir_of output_dir taluk) = Inr fs1"
    and "load_progress fs1 (output_path_of output_dir taluk village) village
           = Inr (features, info, existing, lines)"
    and "get_plot_list env (code_str gis) = []
         \<or> length existing = length (get_plot_list env (code_str gis))"
  shows "fst (extract_and_save_village_data env gis district taluk village output_dir w) = None
    \<and> files (snd (extract_and_save_village_data env gis district taluk village output_dir w)) = fs1
    \<and> persisted (snd (extract_and_save_village_data env gis district taluk village output_dir w)) = persisted w
    \<and> plot_nos_requested (requests (snd (extract_and_save_village_data env gis district taluk village output_dir w)))
        = plot_nos_requested (requests w)"
  using assms
  by (auto simp: extract_and_save_village_data_def extract_plots_def Let_def say_def ask_def
                 plot_nos_requested_append
           split: sum.splits prod.splits)

lemma extract_loop:
  assumes "makedirs (files w) (taluk_dir_of output_dir taluk) = Inr fs1"
    and "load_progress fs1 (output_path_of output_dir taluk village) village
           = Inr (features, info, existing, lines)"
    and "code_truthy gis"
    and "get_plot_list env (code_str gis) \<noteq> []"
    and "length existing \<noteq> length (get_plot_list env (code_str gis))"
  obtains j w3 where
    "extract_and_save_village_data env gis district taluk village output_dir w =
       (case plots_loop env j 0 (get_plot_list env (code_str gis))
               \<lparr>all_features = features, existing_plot_nos = existing, outside = w3\<rparr> of
          (Some e, s) \<Rightarrow> (Some e, outside s)
        | (None, s) \<Rightarrow> (None, say (Finished village (py_len (all_features s))) (outside s)))"
    "files w3 = fs1" "persisted w3 = persisted w"
    "plot_nos_requested (requests w3) = plot_nos_requested (requests w)"
    "gis_code j = code_str gis" "district_name j = district" "taluk_name j = taluk"
    "village_name j = village" "output_path j = output_path_of output_dir taluk village"
proof -
  let ?g = "code_str gis"
  let ?w1 = "w\<lparr>files := fs1, printed := printed w @ lines\<rparr>"
  let ?w2 = "if \<not> truthy info then ask (VillageInfoReq ?g) ?w1 else ?w1"
  let ?w3 = "say (TotalPlots village (length (get_plot_list env ?g))) (ask (PlotListReq ?g) ?w2)"
  let ?j = "\<lparr>gis_code = ?g, district_name = district, taluk_name = taluk,
             village_name = village, output_path = output_path_of output_dir taluk village,
             village_info = (if \<not> truthy info then get_village_info env ?g else info),
             total_plots = length (get_plot_list env ?g)\<rparr>"
  show thesis
  proof (rule that [of ?j ?w3])
    show "extract_and_save_village_data env gis district taluk village output_dir w =
       (case plots_loop env ?j 0 (get_plot_list env (code_str gis))
               \<lparr>all_features = features, existing_plot_nos = existing, outside = ?w3\<rparr> of
          (Some e, s) \<Rightarrow> (Some e, outside s)
        | (None, s) \<Rightarrow> (None, say (Finished village (py_len (all_features s))) (outside s)))"
      using assms
      by (simp add: extract_and_save_village_data_def extract_plots_def Let_def)
  qed (simp_all add: say_def ask_def plot_nos_requested_append)
qed

text \<open>
  Claim C10 as the specification words it fails: the output directory is missing,
  the identifier is \<^verbatim>\<open>None\<close>, and after the call the output directory exists beside
  the directory of the taluk.
\<close>

theorem skipped_village_makes_output_dir:
  "\<not> code_truthy None
   \<and> files empty_world ''data_Pune'' = None
   \<and> files (snd (extract_and_save_village_data demo_remote None
                   ''Pune'' ''Haveli'' ''Wagholi'' ''data_Pune'' empty_world)) ''data_Pune''
       = Some Dir
   \<and> taluk_dir_of ''data_Pune'' ''Haveli'' \<noteq> ''data_Pune''"
  by code_simp

text \<open>
  Claim C10 (the directory of the taluk is made first), amended. When the identifier
  is \<^verbatim>\<open>None\<close> or empty, or the plot list is empty, and \<^verbatim>\<open>os.makedirs\<close> does not raise,
  then after the call the directory of the taluk exists, nothing was written, and
  the only paths that changed are the directory of the taluk and those of its
  parents that were missing: each was absent and is a directory now. This holds
  whatever the file at the output path is, also when the load raises.
\<close>

theorem skipped_village_makes_taluk_dir:
  assumes "\<not> code_truthy gis \<or> get_plot_list env (code_str gis) = []"
    and "makedirs (files w) (taluk_dir_of output_dir taluk) = Inr fs1"
    and "w' = snd (extract_and_save_village_data env gis district taluk village output_dir w)"
  shows "files w' (taluk_dir_of output_dir taluk) = Some Dir
    \<and> persisted w' = persisted w
    \<and> (\<forall>q. files w' q = files w q
           \<or> (files w q = None \<and> files w' q = Some Dir
              \<and> (q = taluk_dir_of output_dir taluk \<or> q \<in> set (parents (taluk_dir_of output_dir taluk)))))"
  using extract_skipped [OF assms(1,2), of district village] assms(3)
        makedirs_effect [OF assms(2)]
  by auto

theorem skipped_village_makes_taluk_dir_witness:
  "\<not> code_truthy None
   \<and> files (snd (extract_and_save_village_data demo_remote None
                   ''Pune'' ''Haveli'' ''Wagholi'' ''data_Pune'' empty_world)) ''data_Pune/Haveli''
       = Some Dir
   \<and> persisted (snd (extract_and_save_village_data demo_remote None
                   ''Pune'' ''Haveli'' ''Wagholi'' ''data_Pune'' empty_world)) = []"
proof -
  let ?m = "makedirs (files empty_world) (taluk_dir_of ''data_Pune'' ''Haveli'')"
  have "\<not> isl ?m" by code_simp
  then have mk: "?m = Inr (projr ?m)" by simp
  have gis: "\<not> code_truthy None \<or> get_plot_list demo_remote (code_str None) = []"
    by (simp add: code_truthy_def)
  have dir: "taluk_dir_of ''data_Pune'' ''Haveli'' = ''data_Pune/Haveli''" by code_simp
  have "persisted empty_world = []" by (simp add: empty_world_def)
  with skipped_village_makes_taluk_dir [OF gis mk refl, of "''Pune''" "''Wagholi''"] dir gis
  show ?thesis by (simp add: code_truthy_def)
qed

section \<open>Resuming\<close>

text \<open>
  Claim C2 (resume short-circuit). When the plot numbers recovered from the output
  file cover the plot list fetched, the call returns, sends no plot request and
  writes nothing: the files are those left by \<^verbatim>\<open>os.makedirs\<close>, the output file among
  them.
\<close>

theorem resume_short_circuit:
  assumes "makedirs (files w) (taluk_dir_of output_dir taluk) = Inr fs1"
    and "load_progress fs1 (output_path_of output_dir taluk village) village
           = Inr (features, info, existing, lines)"
    and "code_truthy gis"
    and "set (map JStr (get_plot_list env (code_str gis))) \<subseteq> set existing"
    and "extract_and_save_village_data env gis district taluk village output_dir w = (r, w')"
  shows "r = None
    \<and> plot_nos_requested (requests w') = plot_nos_requested (requests w)
    \<and> persisted w' = persisted w
    \<and> files w' = fs1
    \<and> files w' (output_path_of output_dir taluk village) = fs1 (output_path_of output_dir taluk village)"
proof (cases "get_plot_list env (code_str gis) = []
              \<or> length existing = length (get_plot_list env (code_str gis))")
  case True
  from extract_complete [OF assms(1,2) this, of district] assms(5) show ?thesis by simp
next
  case False
  with assms(1,2,3) obtain j w3 where
    run: "extract_and_save_village_data env gis district taluk village output_dir w =
       (case plots_loop env j 0 (get_plot_list env (code_str gis))
               \<lparr>all_features = features, existing_plot_nos = existing, outside = w3\<rparr> of
          (Some e, s) \<Rightarrow> (Some e, outside s)
        | (None, s) \<Rightarrow> (None, say (Finished village (py_len (all_features s))) (outside s)))"
    and w3: "files w3 = fs1" "persisted w3 = persisted w"
      "plot_nos_requested (requests w3) = plot_nos_requested (requests w)"
    by (auto elim: extract_loop [of w output_dir taluk fs1 village features info existing lines gis env district])
  have "plots_loop env j 0 (get_plot_list env (code_str gis))
          \<lparr>all_features = features, existing_plot_nos = existing, outside = w3\<rparr>
        = (None, \<lparr>all_features = features, existing_plot_nos = existing, outside = w3\<rparr>)"
    using assms(4) by (intro plots_loop_all_existing) simp
  with run assms(5) w3 show ?thesis by (auto simp: say_def)
qed

theorem resume_short_circuit_witness:
  "code_truthy (Some ''U0125010203'')
   \<and> fst (extract_and_save_village_data demo_remote (Some ''U0125010203'')
            ''Pune'' ''Haveli'' ''Wagholi'' ''data_Pune'' complete_world) = None
   \<and> plot_nos_requested (requests (snd (extract_and_save_village_data demo_remote (Some ''U0125010203'')
            ''Pune'' ''Haveli'' ''Wagholi'' ''data_Pune'' complete_world)))
       = plot_nos_requested (requests complete_world)
   \<and> persisted (snd (extract_and_save_village_data demo_remote (Some ''U0125010203'')
            ''Pune'' ''Haveli'' ''Wagholi'' ''data_Pune'' complete_world))
       = persisted complete_world"
proof -
  let ?m = "makedirs (files complete_world) (taluk_dir_of ''data_Pune'' ''Haveli'')"
  let ?l = "load_progress (projr ?m) (output_path_of ''data_Pune'' ''Haveli'' ''Wagholi'') ''Wagholi''"
  have "\<not> isl ?m" by code_simp
  then have mk: "?m = Inr (projr ?m)" by simp
  have "\<not> isl ?l" by code_simp
  then have ld: "?l = Inr (fst (projr ?l), fst (snd (projr ?l)), fst (snd (snd (projr ?l))),
                           snd (snd (snd (projr ?l))))" by simp
  have gis: "code_truthy (Some ''U0125010203'')" by code_simp
  have cover: "set (map JStr (get_plot_list demo_remote (code_str (Some ''U0125010203''))))
                 \<subseteq> set (fst (snd (snd (projr ?l))))" by code_simp
  from resume_short_circuit [OF mk ld gis cover surjective_pairing] gis
  show ?thesis by simp
qed

section \<open>The properties of a feature\<close>

text \<open>\<^verbatim>\<open>dict.update\<close> as a map: the keys of the argument win.\<close>

lemma map_of_fold_update:
  "map_of (fold (\<lambda>(k, v). AList.update k v) other d) k =
     (case map_of (rev other) k of Some v \<Rightarrow> Some v | None \<Rightarrow> map_of d k)"
proof (induction other arbitrary: d)
  case Nil
  then show ?case by simp
next
  case (Cons x xs)
  obtain a b where x: "x = (a, b)" by (cases x)
  show ?case
    by (simp add: Cons.IH x update_conv' map_add_def split: option.splits)
qed

lemma map_of_dict_update:
  assumes "distinct (map fst other)"
  shows "map_of (dict_update d other) k =
           (case map_of other k of Some v \<Rightarrow> Some v | None \<Rightarrow> map_of d k)"
proof -
  have "map_of (rev other) = map_of other"
    using assms by (simp add: map_of_inject_set distinct_rev rev_map [symmetric])
  then show ?thesis by (simp add: dict_update_def map_of_fold_update)
qed

text \<open>
  Claim C6 as the specification words it fails: a raw attribute named
  \<^verbatim>\<open>district\<close> replaces the district the extractor set.
\<close>

theorem context_key_overridden:
  "dict_get (plot_properties demo_job
       [(''plotno'', JStr ''7''), (''district'', JStr ''Thane''), (''the_geom'', JStr ''POINT (1 2)'')])
     ''district'' JNull = JStr ''Thane''
   \<and> JStr ''Thane'' \<noteq> JStr (district_name demo_job)"
  by code_simp

text \<open>
  Claim C6 (properties merge precedence), amended. For a plot whose reply is a dict
  with a geometry that reprojects, the feature appended has the type \<^verbatim>\<open>Feature\<close>, the
  reprojected geometry, and properties in which every key of the reply has the value
  of the reply, also the keys \<^verbatim>\<open>district\<close>, \<^verbatim>\<open>taluk\<close> and \<^verbatim>\<open>village\<close>; a context key
  the reply does not have keeps the name the extractor set.
\<close>

theorem properties_merge:
  assumes "get_plot_geometry env i (gis_code j) p = JObj d"
    and "distinct (map fst d)"
    and "truthy (dict_get d ''the_geom'' JNull)"
    and "truthy (wkt_to_geojson env (dict_get d ''the_geom'' JNull))"
    and "all_features s = JArr fs"
  shows "\<exists>props.
           all_features (snd (process_plot env j i p s)) =
             JArr (fs @ [JObj [(''type'', JStr ''Feature''),
                              (''geometry'', wkt_to_geojson env (dict_get d ''the_geom'' JNull)),
                              (''properties'', JObj props)]])
           \<and> (\<forall>k. map_of props k =
                 (case map_of d k of
                    Some v \<Rightarrow> Some v
                  | None \<Rightarrow> map_of [(''district'', JStr (district_name j)),
                                     (''taluk'', JStr (taluk_name j)),
                                     (''village'', JStr (village_name j))] k))"
proof -
  obtain r s1 where run: "process_plot env j i p s = (r, s1)" by (cases "process_plot env j i p s")
  have y: "plot_yield env j i p =
             Some (plot_feature j (wkt_to_geojson env (dict_get d ''the_geom'' JNull)) d)"
    using assms(1,3,4) by (simp add: plot_yield_def)
  from process_plot_yield [OF run y] assms(5)
  have "all_features s1 =
          JArr (fs @ [plot_feature j (wkt_to_geojson env (dict_get d ''the_geom'' JNull)) d])"
    by auto
  moreover have "\<forall>k. map_of (plot_properties j d) k =
                 (case map_of d k of
                    Some v \<Rightarrow> Some v
                  | None \<Rightarrow> map_of [(''district'', JStr (district_name j)),
                                     (''taluk'', JStr (taluk_name j)),
                                     (''village'', JStr (village_name j))] k)"
    using map_of_dict_update [OF assms(2)] by (simp add: plot_properties_def)
  ultimately show ?thesis
    using run by (auto simp: plot_feature_def)
qed


theorem properties_merge_witness:
  "get_plot_geometry demo_remote 0 (gis_code demo_job) ''101''
     = JObj [(''plotno'', JStr ''101''), (''the_geom'', JStr ''POINT (1 2)'')]
   \<and> distinct (map fst [(''plotno'', JStr ''101''), (''the_geom'', JStr ''POINT (1 2)'')])
   \<and> all_features fresh_progress = JArr []
   \<and> (\<exists>props.
         all_features (snd (process_plot demo_remote demo_job 0 ''101'' fresh_progress)) =
           JArr [JObj [(''type'', JStr ''Feature''),
                       (''geometry'', JObj [(''type'', JStr ''Point''), (''coordinates'', JArr [JNum 73, JNum 18])]),
                       (''properties'', JObj props)]]
         \<and> map_of props ''plotno'' = Some (JStr ''101'')
         \<and> map_of props ''district'' = Some (JStr ''Pune''))"
proof -
  let ?d = "[(''plotno'', JStr ''101''), (''the_geom'', JStr ''POINT (1 2)'')]"
  have h1: "get_plot_geometry demo_remote 0 (gis_code demo_job) ''101'' = JObj ?d"
    by (simp add: demo_remote_def)
  have h2: "distinct (map fst ?d)" by simp
  have h3: "truthy (dict_get ?d ''the_geom'' JNull)" by (simp add: dict_get_def)
  have h4: "truthy (wkt_to_geojson demo_remote (dict_get ?d ''the_geom'' JNull))"
    by (simp add: demo_remote_def)
  have h5: "all_features fresh_progress = JArr []" by (simp add: fresh_progress_def)
  from properties_merge [OF h1 h2 h3 h4 h5] obtain props where
    p: "all_features (snd (process_plot demo_remote demo_job 0 ''101'' fresh_progress)) =
          JArr ([] @ [JObj [(''type'', JStr ''Feature''),
                       (''geometry'', wkt_to_geojson demo_remote (dict_get ?d ''the_geom'' JNull)),
                       (''properties'', JObj props)]])"
    and q: "\<forall>k. map_of props k =
              (case map_of ?d k of
                 Some v \<Rightarrow> Some v
               | None \<Rightarrow> map_of [(''district'', JStr (district_name demo_job)),
                                  (''taluk'', JStr (taluk_name demo_job)),
                                  (''village'', JStr (village_name demo_job))] k)"
    by blast
  from q have "map_of props ''plotno'' = Some (JStr ''101'')"
    "map_of props ''district'' = Some (JStr ''Pune'')"
    by (simp_all add: demo_job_def)
  with p h1 h2 h5 show ?thesis by (simp add: demo_remote_def dict_get_def)
qed

section \<open>Fetching what is missing\<close>

text \<open>
  Claim C1 (resumability). The file holds the plots 7 and 8, the plot list is 101,
  102: both are missing from the file and the claim has both fetched. Line 145
  compares the number of plot numbers found with the length of the list, 2 and 2,
  prints that all plots are scraped and returns: no plot is requested.
\<close>

theorem equal_count_skips_missing_plots:
  "fst (snd (snd (projr (load_progress (files stale_world)
       ''data_Pune/Haveli/Wagholi.geojson'' ''Wagholi'')))) = [JStr ''8'', JStr ''7'']
   \<and> filter (\<lambda>p. JStr p \<notin> set [JStr ''8'', JStr ''7'']) (get_plot_list demo_remote ''U0125010203'')
       = [''101'', ''102'']
   \<and> plot_nos_requested (requests stale_world) = [''7'', ''8'']
   \<and> plot_nos_requested (requests (snd (extract_and_save_village_data demo_remote
         (Some ''U0125010203'') ''Pune'' ''Haveli'' ''Wagholi'' ''data_Pune'' stale_world)))
       = [''7'', ''8'']
   \<and> last (printed (snd (extract_and_save_village_data demo_remote
         (Some ''U0125010203'') ''Pune'' ''Haveli'' ''Wagholi'' ''data_Pune'' stale_world)))
       = AllScraped 2 ''Wagholi''"
  by code_simp

text \<open>
  What a run does fetch. Let the output file give the plot numbers \<open>existing\<close>, let
  the plot list have no repetition, and let the call return. When the count test of
  line 145 does not end the call, the plot requests are those for the plots of the
  list that are not in \<open>existing\<close>, in the order of the list; when moreover every
  write succeeds, the features of the file after the call are those of the file
  before it followed by the features of the requested plots that yielded geometry.
\<close>

lemma resumed_run_fetches:
  assumes mk: "makedirs (files w) (taluk_dir_of output_dir taluk) = Inr fs1"
    and ld: "load_progress fs1 (output_path_of output_dir taluk village) village
               = Inr (features, info, existing, lines)"
    and gis: "code_truthy gis"
    and dist: "distinct (get_plot_list env (code_str gis))"
    and ret: "extract_and_save_village_data env gis district taluk village output_dir w = (None, w')"
    and job: "gis_code j = code_str gis" "district_name j = district" "taluk_name j = taluk"
             "village_name j = village"
  shows "plot_nos_requested (requests w') =
           plot_nos_requested (requests w)
           @ (if length existing = length (get_plot_list env (code_str gis)) then []
              else filter (\<lambda>p. JStr p \<notin> set existing) (get_plot_list env (code_str gis)))
    \<and> ((\<forall>k. write_result env k = Written)
         \<and> fs1 (output_path_of output_dir taluk village) \<noteq> Some Dir
       \<longrightarrow> features_on_disk (files w') (output_path_of output_dir taluk village) =
             features_on_disk (files w) (output_path_of output_dir taluk village)
             @ (if length existing = length (get_plot_list env (code_str gis)) then []
                else new_features env j 0 (get_plot_list env (code_str gis)) existing))"
proof (cases "get_plot_list env (code_str gis) = []
              \<or> length existing = length (get_plot_list env (code_str gis))")
  case True
  from extract_complete [OF mk ld True, of district] ret
  have "plot_nos_requested (requests w') = plot_nos_requested (requests w)" "files w' = fs1"
    by simp_all
  with True makedirs_features_on_disk [OF mk] show ?thesis by auto
next
  case False
  let ?L = "get_plot_list env (code_str gis)"
  let ?path = "output_path_of output_dir taluk village"
  from False mk ld gis obtain j0 w3 where
    run: "extract_and_save_village_data env gis district taluk village output_dir w =
       (case plots_loop env j0 0 ?L
               \<lparr>all_features = features, existing_plot_nos = existing, outside = w3\<rparr> of
          (Some e, s) \<Rightarrow> (Some e, outside s)
        | (None, s) \<Rightarrow> (None, say (Finished village (py_len (all_features s))) (outside s)))"
    and w3: "files w3 = fs1" "persisted w3 = persisted w"
      "plot_nos_requested (requests w3) = plot_nos_requested (requests w)"
    and j0: "gis_code j0 = code_str gis" "district_name j0 = district" "taluk_name j0 = taluk"
      "village_name j0 = village" "output_path j0 = ?path"
    by (auto elim: extract_loop [of w output_dir taluk fs1 village features info existing lines gis env district])
  let ?s0 = "\<lparr>all_features = features, existing_plot_nos = existing, outside = w3\<rparr>"
  from run ret obtain s where
    loop: "plots_loop env j0 0 ?L ?s0 = (None, s)"
    and w': "w' = say (Finished village (py_len (all_features s))) (outside s)"
    by (auto split: prod.splits option.splits)
  have req: "plot_nos_requested (requests w') =
               plot_nos_requested (requests w) @ filter (\<lambda>p. JStr p \<notin> set existing) ?L"
    using plots_loop_requests [OF dist loop] w3 w' by (simp add: say_def)
  have disk: "features_on_disk (files w') ?path =
                features_on_disk (files w) ?path @ new_features env j 0 ?L existing"
    if ok: "\<forall>k. write_result env k = Written" and nodir: "fs1 ?path \<noteq> Some Dir"
  proof -
    have start: "features_on_disk (files (outside ?s0)) (output_path j0) = py_list (all_features ?s0)"
      using load_features_on_disk [OF ld] w3 j0 by simp
    have "files (outside ?s0) (output_path j0) \<noteq> Some Dir" using nodir w3 j0 by simp
    from plots_loop_disk [OF dist ok loop this start]
    have "features_on_disk (files (outside s)) ?path = py_list features @ new_features env j0 0 ?L existing"
      using j0 by simp
    moreover have "new_features env j0 0 ?L existing = new_features env j 0 ?L existing"
      using j0 job by (intro new_features_cong) simp_all
    moreover have "py_list features = features_on_disk (files w) ?path"
      using load_features_on_disk [OF ld] makedirs_features_on_disk [OF mk] by simp
    ultimately show ?thesis using w' by (simp add: say_def)
  qed
  from req disk False show ?thesis by simp
qed

lemma resumed_run_fetches_example:
  "code_truthy (Some ''U0125010203'')
   \<and> distinct (get_plot_list demo_remote (code_str (Some ''U0125010203'')))
   \<and> fst (extract_and_save_village_data demo_remote (Some ''U0125010203'')
            ''Pune'' ''Haveli'' ''Wagholi'' ''data_Pune'' resumed_world) = None
   \<and> plot_nos_requested (requests (snd (extract_and_save_village_data demo_remote
         (Some ''U0125010203'') ''Pune'' ''Haveli'' ''Wagholi'' ''data_Pune'' resumed_world)))
       = plot_nos_requested (requests resumed_world) @ [''101'']
   \<and> features_on_disk (files (snd (extract_and_save_village_data demo_remote
         (Some ''U0125010203'') ''Pune'' ''Haveli'' ''Wagholi'' ''data_Pune'' resumed_world)))
         ''data_Pune/Haveli/Wagholi.geojson''
       = features_on_disk (files resumed_world) ''data_Pune/Haveli/Wagholi.geojson''
         @ [the (plot_yield demo_remote demo_job 0 ''101'')]"
proof -
  let ?g = "Some ''U0125010203''"
  let ?run = "extract_and_save_village_data demo_remote ?g ''Pune'' ''Haveli'' ''Wagholi'' ''data_Pune'' resumed_world"
  let ?m = "makedirs (files resumed_world) (taluk_dir_of ''data_Pune'' ''Haveli'')"
  let ?l = "load_progress (projr ?m) (output_path_of ''data_Pune'' ''Haveli'' ''Wagholi'') ''Wagholi''"
  let ?E = "fst (snd (snd (projr ?l)))"
  let ?L = "get_plot_list demo_remote (code_str ?g)"
  have "\<not> isl ?m" by code_simp
  then have mk: "?m = Inr (projr ?m)" by simp
  have "\<not> isl ?l" by code_simp
  then have ld: "?l = Inr (fst (projr ?l), fst (snd (projr ?l)), ?E, snd (snd (snd (projr ?l))))"
    by simp
  have gis: "code_truthy ?g" by code_simp
  have dist: "distinct ?L" by code_simp
  have "fst ?run = None" by code_simp
  then have ret: "?run = (None, snd ?run)" by (metis prod.collapse)
  have job: "gis_code demo_job = code_str ?g" "district_name demo_job = ''Pune''"
    "taluk_name demo_job = ''Haveli''" "village_name demo_job = ''Wagholi''"
    by (simp_all add: demo_job_def code_str_def)
  have ok: "\<forall>k. write_result demo_remote k = Written" by (simp add: demo_remote_def)
  have nodir: "projr ?m (output_path_of ''data_Pune'' ''Haveli'' ''Wagholi'') \<noteq> Some Dir"
    by code_simp
  have path: "output_path_of ''data_Pune'' ''Haveli'' ''Wagholi'' = ''data_Pune/Haveli/Wagholi.geojson''"
    by code_simp
  have e1: "(if length ?E = length ?L then [] else filter (\<lambda>p. JStr p \<notin> set ?E) ?L) = [''101'']"
    by code_simp
  have e2: "(if length ?E = length ?L then [] else new_features demo_remote demo_job 0 ?L ?E)
              = [the (plot_yield demo_remote demo_job 0 ''101'')]"
    by code_simp
  from resumed_run_fetches [OF mk ld gis dist ret job] ok nodir
  have "plot_nos_requested (requests (snd ?run)) =
          plot_nos_requested (requests resumed_world)
          @ (if length ?E = length ?L then [] else filter (\<lambda>p. JStr p \<notin> set ?E) ?L)"
    "features_on_disk (files (snd ?run)) (output_path_of ''data_Pune'' ''Haveli'' ''Wagholi'') =
       features_on_disk (files resumed_world) (output_path_of ''data_Pune'' ''Haveli'' ''Wagholi'')
       @ (if length ?E = length ?L then [] else new_features demo_remote demo_job 0 ?L ?E)"
    by blast+
  with e1 e2 path gis dist \<open>fst ?run = None\<close> show ?thesis by simp
qed

text \<open>
  When every plot number of the file is a plot of the list, the count test agrees
  with coverage, and a call that returns has requested the plots of the list that
  are not in the file, in the order of the list.
\<close>

lemma collect_plot_nos_distinct:
  "collect_plot_nos fs acc = Inr ex \<Longrightarrow> distinct acc \<Longrightarrow> distinct ex"
proof (induction fs arbitrary: acc)
  case Nil
  then show ?case by simp
next
  case (Cons f fs)
  then show ?case
    by (cases "feature_plot_no f") (auto split: option.splits)
qed

lemma load_progress_distinct:
  assumes "load_progress fs path v = Inr (features, info, existing, lines)"
  shows "distinct existing"
proof (cases "\<exists>data. fs path = Some (File (Doc data))")
  case True
  then obtain data where "fs path = Some (File (Doc data))" by blast
  with assms obtain items where "collect_plot_nos items [] = Inr existing"
    by (auto simp: load_progress_def read_existing_def Let_def split: sum.splits json.splits)
  from collect_plot_nos_distinct [OF this] show ?thesis by simp
next
  case False
  with assms have "existing = []"
    by (auto simp: load_progress_def split: option.splits node.splits content.splits)
  then show ?thesis by simp
qed

lemma listed_plots_fetched:
  assumes mk: "makedirs (files w) (taluk_dir_of output_dir taluk) = Inr fs1"
    and ld: "load_progress fs1 (output_path_of output_dir taluk village) village
               = Inr (features, info, existing, lines)"
    and gis: "code_truthy gis"
    and dist: "distinct (get_plot_list env (code_str gis))"
    and listed: "set existing \<subseteq> JStr ` set (get_plot_list env (code_str gis))"
    and ret: "extract_and_save_village_data env gis district taluk village output_dir w = (None, w')"
  shows "plot_nos_requested (requests w') =
           plot_nos_requested (requests w)
           @ filter (\<lambda>p. JStr p \<notin> set existing) (get_plot_list env (code_str gis))"
proof -
  let ?L = "get_plot_list env (code_str gis)"
  let ?j = "\<lparr>gis_code = code_str gis, district_name = district, taluk_name = taluk,
             village_name = village, output_path = [], village_info = JNull, total_plots = 0\<rparr>"
  have "filter (\<lambda>p. JStr p \<notin> set existing) ?L = []" if same: "length existing = length ?L"
  proof -
    have "card (set existing) = card (JStr ` set ?L)"
      using load_progress_distinct [OF ld] dist same
      by (simp add: distinct_card card_image inj_on_def)
    with listed have "set existing = JStr ` set ?L"
      by (intro card_subset_eq) simp_all
    then show ?thesis by (simp add: filter_empty_conv)
  qed
  with resumed_run_fetches [OF mk ld gis dist ret, of ?j] show ?thesis by simp
qed

section \<open>What is persisted\<close>

lemma extends_refl [simp]: "extends a a"
  by (simp add: extends_def)







lemma is_village_output_geojson_output [simp]:
  "is_village_output (geojson_output env j i fs)"
  by (simp add: is_village_output_def geojson_output_def dict_get_def)











lemma successful_plots_geojson_output [simp]:
  "metadata_field ''successful_plots'' (geojson_output env j i fs) = JNum (int (length fs))"
  by (simp add: metadata_field_def geojson_output_def dict_get_def)







end
